theory Spec2Isabelle
  imports Main "HOL-Library.Sublist"
begin

section \<open>JavaScript values\<close>

text \<open>
  The hooks receive dynamically typed values and test them at run time (\<open>!x\<close>,
  \<open>typeof x\<close>), so the values they inspect are modelled as a datatype of JavaScript
  values. An object is the list of its own enumerable properties in the order
  \<open>Object.entries\<close> and \<open>JSON.stringify\<close> visit them. Numbers are the integers
  (the code never computes with them; it only prints and compares them with zero), and a
  string is a list of characters.
\<close>

datatype jsval =
    JUndefined
  | JNull
  | JBool bool
  | JNum int
  | JStr string
  | JArr "jsval list"
  | JObj "(string \<times> jsval) list"

text \<open>\<open>ToBoolean\<close>: what \<open>!x\<close>, \<open>x || y\<close> and \<open>if (x)\<close> test.\<close>

fun truthy :: "jsval \<Rightarrow> bool" where
  "truthy JUndefined = False"
| "truthy JNull = False"
| "truthy (JBool b) = b"
| "truthy (JNum n) = (n \<noteq> 0)"
| "truthy (JStr s) = (s \<noteq> [])"
| "truthy (JArr xs) = True"
| "truthy (JObj kvs) = True"

fun typeof :: "jsval \<Rightarrow> string" where
  "typeof JUndefined = ''undefined''"
| "typeof JNull = ''object''"
| "typeof (JBool b) = ''boolean''"
| "typeof (JNum n) = ''number''"
| "typeof (JStr s) = ''string''"
| "typeof (JArr xs) = ''object''"
| "typeof (JObj kvs) = ''object''"

text \<open>Property read \<open>x.key\<close> on a value that is neither \<open>null\<close> nor \<open>undefined\<close>.\<close>

fun getProp :: "jsval \<Rightarrow> string \<Rightarrow> jsval" where
  "getProp (JObj kvs) key = (case map_of kvs key of None \<Rightarrow> JUndefined | Some v \<Rightarrow> v)"
| "getProp v key = JUndefined"

subsection \<open>Strings\<close>

fun join :: "string \<Rightarrow> string list \<Rightarrow> string" where
  "join sep [] = []"
| "join sep [x] = x"
| "join sep (x # y # ys) = x @ sep @ join sep (y # ys)"

definition digit_char :: "nat \<Rightarrow> char" where
  "digit_char d =
     (if d = 0 then CHR ''0'' else if d = 1 then CHR ''1'' else if d = 2 then CHR ''2''
      else if d = 3 then CHR ''3'' else if d = 4 then CHR ''4'' else if d = 5 then CHR ''5''
      else if d = 6 then CHR ''6'' else if d = 7 then CHR ''7'' else if d = 8 then CHR ''8''
      else CHR ''9'')"

text \<open>
  \<open>Number::toString\<close> on an integer: its decimal digits, a minus sign first when
  negative. JavaScript prints an integer this way up to a magnitude of \<open>10^21\<close>.
\<close>

function decimal :: "nat \<Rightarrow> string" where
  "decimal n = (if 10 \<le> n then decimal (n div 10) @ [digit_char (n mod 10)] else [digit_char n])"
  by pat_completeness auto
termination
  by (relation "measure id") auto

declare decimal.simps [simp del]

definition Number_toString :: "int \<Rightarrow> string" where
  "Number_toString i = (if 0 \<le> i then decimal (nat i) else CHR ''-'' # decimal (nat (- i)))"

text \<open>
  \<open>ToString\<close>, as applied by template literals, \<open>String(x)\<close>, \<open>new Error(x)\<close> and
  to the replacement argument of \<open>String.prototype.replace\<close>.
\<close>

fun ToString :: "jsval \<Rightarrow> string"
  and ToString_elems :: "jsval list \<Rightarrow> string list" where
  "ToString JUndefined = ''undefined''"
| "ToString JNull = ''null''"
| "ToString (JBool b) = (if b then ''true'' else ''false'')"
| "ToString (JNum n) = Number_toString n"
| "ToString (JStr s) = s"
| "ToString (JArr xs) = join '','' (ToString_elems xs)"
| "ToString (JObj kvs) = ''[object Object]''"
| "ToString_elems [] = []"
| "ToString_elems (x # xs) =
     (if x = JUndefined \<or> x = JNull then [] else ToString x) # ToString_elems xs"

subsection \<open>\<open>String.prototype.replace\<close> with a string pattern\<close>

fun startsWith :: "string \<Rightarrow> string \<Rightarrow> bool" where
  "startsWith s [] = True"
| "startsWith [] (p # ps) = False"
| "startsWith (c # cs) (p # ps) = (c = p \<and> startsWith cs ps)"

fun indexOf :: "string \<Rightarrow> string \<Rightarrow> nat option" where
  "indexOf [] pat = (if pat = [] then Some 0 else None)"
| "indexOf (c # cs) pat =
     (if startsWith (c # cs) pat then Some 0 else map_option Suc (indexOf cs pat))"

text \<open>
  \<open>GetSubstitution\<close> for a string pattern (no capture groups): in the replacement text
  \<open>$$\<close> stands for a dollar sign, \<open>$&\<close> for the matched text, \<open>$`\<close> (character
  0x60) for the text before the match and \<open>$'\<close> (character 0x27) for the text after
  it; every other character, a dollar sign before a digit or \<open><\<close> included, is copied.
\<close>

fun getSubstitution :: "string \<Rightarrow> string \<Rightarrow> string \<Rightarrow> string \<Rightarrow> string" where
  "getSubstitution matched preceding following [] = []"
| "getSubstitution matched preceding following [c] = [c]"
| "getSubstitution matched preceding following (c # d # r) =
     (if c = CHR ''$'' \<and> d = CHR ''$'' then CHR ''$'' # getSubstitution matched preceding following r
      else if c = CHR ''$'' \<and> d = CHR ''&'' then matched @ getSubstitution matched preceding following r
      else if c = CHR ''$'' \<and> d = CHR 0x60 then preceding @ getSubstitution matched preceding following r
      else if c = CHR ''$'' \<and> d = CHR 0x27 then following @ getSubstitution matched preceding following r
      else c # getSubstitution matched preceding following (d # r))"

definition replace :: "string \<Rightarrow> string \<Rightarrow> string \<Rightarrow> string" where
  "replace s pat replacement =
     (case indexOf s pat of
        None \<Rightarrow> s
      | Some pos \<Rightarrow>
          (let preceding = take pos s; following = drop (pos + length pat) s
           in preceding @ getSubstitution pat preceding following replacement @ following))"

section \<open>Path and query templating (\<open>src/utils.ts\<close>)\<close>

text \<open>
  A parameter object is the list \<open>Object.entries(params)\<close> returns.
  \<^verbatim>\<open>
  Object.entries(params).reduce((acc, [key, value]) => acc.replace(`{${key}}`, value), path)
  \<close>
\<close>

definition convertPathParams :: "string \<Rightarrow> (string \<times> jsval) list \<Rightarrow> string" where
  "convertPathParams path params =
     foldl (\<lambda>acc (key, value). replace acc (''{'' @ key @ ''}'') (ToString value)) path params"

definition convertQueryParams :: "string \<Rightarrow> (string \<times> jsval) list \<Rightarrow> string" where
  "convertQueryParams path params =
     (path @ ''?'') @ join ''&'' (map (\<lambda>(key, value). key @ ''='' @ ToString value) params)"

section \<open>\<open>JSON.stringify\<close>\<close>

definition hex_char :: "nat \<Rightarrow> char" where
  "hex_char d =
     (if d < 10 then digit_char d
      else if d = 10 then CHR ''a'' else if d = 11 then CHR ''b'' else if d = 12 then CHR ''c''
      else if d = 13 then CHR ''d'' else if d = 14 then CHR ''e'' else CHR ''f'')"

text \<open>
  \<open>QuoteJSONString\<close>, one character: the double quote (0x22) and the backslash (0x5C) are
  escaped, the control characters below 0x20 get their short escape or \<open>\u00XX\<close>.
\<close>

definition escape_char :: "char \<Rightarrow> string" where
  "escape_char c =
     (if c = CHR 0x22 then [CHR 0x5C, CHR 0x22]
      else if c = CHR 0x5C then [CHR 0x5C, CHR 0x5C]
      else if c = CHR 0x08 then [CHR 0x5C, CHR ''b'']
      else if c = CHR 0x09 then [CHR 0x5C, CHR ''t'']
      else if c = CHR 0x0A then [CHR 0x5C, CHR ''n'']
      else if c = CHR 0x0C then [CHR 0x5C, CHR ''f'']
      else if c = CHR 0x0D then [CHR 0x5C, CHR ''r'']
      else if of_char c < (32 :: nat)
        then [CHR 0x5C, CHR ''u'', CHR ''0'', CHR ''0'',
              hex_char (of_char c div 16), hex_char (of_char c mod 16)]
      else [c])"

definition quoteJSONString :: "string \<Rightarrow> string" where
  "quoteJSONString s = [CHR 0x22] @ concat (map escape_char s) @ [CHR 0x22]"

text \<open>
  \<open>JSON.stringify(value)\<close> without indentation. The result \<open>None\<close> is JavaScript's
  \<open>undefined\<close>: that is what \<open>JSON.stringify(undefined)\<close> returns. A property whose
  value is \<open>undefined\<close> is left out of an object, and an \<open>undefined\<close> array element is
  written \<open>null\<close>.
\<close>

fun JSON_stringify :: "jsval \<Rightarrow> string option"
  and stringify_elems :: "jsval list \<Rightarrow> string list"
  and stringify_props :: "(string \<times> jsval) list \<Rightarrow> string list" where
  "JSON_stringify JUndefined = None"
| "JSON_stringify JNull = Some ''null''"
| "JSON_stringify (JBool b) = Some (if b then ''true'' else ''false'')"
| "JSON_stringify (JNum n) = Some (Number_toString n)"
| "JSON_stringify (JStr s) = Some (quoteJSONString s)"
| "JSON_stringify (JArr xs) = Some (''['' @ join '','' (stringify_elems xs) @ '']'')"
| "JSON_stringify (JObj kvs) = Some (''{'' @ join '','' (stringify_props kvs) @ ''}'')"
| "stringify_elems [] = []"
| "stringify_elems (x # xs) =
     (case JSON_stringify x of None \<Rightarrow> ''null'' | Some s \<Rightarrow> s) # stringify_elems xs"
| "stringify_props [] = []"
| "stringify_props ((key, value) # kvs) =
     (case JSON_stringify value of
        None \<Rightarrow> stringify_props kvs
      | Some s \<Rightarrow> (quoteJSONString key @ '':'' @ s) # stringify_props kvs)"

section \<open>The host transport and the provider (\<open>src/lib/providers/custom-objects.tsx\<close>)\<close>

datatype Error = Error string | TypeError string

datatype Method = GET | POST | PUT | DELETE

text \<open>
  The object literal \<open>fire\<close> hands to \<open>zaf.request\<close>: its keys \<open>url\<close>, \<open>type\<close>,
  \<open>data\<close>, \<open>timeout\<close>, \<open>headers\<close> and \<open>secure\<close>. A \<open>data\<close> of \<open>None\<close> is
  \<open>undefined\<close>.
\<close>

record ZafRequest =
  req_url :: string
  req_type :: Method
  req_data :: "string option"
  req_timeout :: int
  req_headers :: "(string \<times> string) list"
  req_secure :: bool

text \<open>
  The host's transport handle, \<open>zaf.request\<close>: the promise it returns is rejected with
  a value (\<open>Inl\<close>) or resolved with the response (\<open>Inr\<close>).
\<close>

type_synonym ZafClient = "ZafRequest \<Rightarrow> jsval + jsval"

record ContextProps =
  ctx_zaf :: ZafClient

text \<open>
  What \<open>useContext(CustomObjectsContext)\<close> returns where the hook is rendered: \<open>None\<close>
  outside a \<open>CustomObjectsProvider\<close>, otherwise the value \<open>{ zaf: client }\<close> the
  provider was given.
\<close>

type_synonym Env = "ContextProps option"

definition CustomObjectsProvider :: "ZafClient \<Rightarrow> Env" where
  "CustomObjectsProvider client = Some \<lparr> ctx_zaf = client \<rparr>"

definition useInternalZafClient :: "Env \<Rightarrow> Error + ContextProps" where
  "useInternalZafClient env =
     (case env of
        None \<Rightarrow> Inl (Error ''useInternalZafClient must be used within CustomObjectsProvider'')
      | Some ctx \<Rightarrow> Inr ctx)"

section \<open>The caching library's client and the observable trace\<close>

text \<open>
  The hooks act on the outside through three channels only: the host transport, the
  caching library's query client, and the callbacks of the caller. Each use is an event of
  the trace, oldest first. A callback is known by its name; it is taken to return normally.
\<close>

datatype Callback = Callback string

datatype Event =
    ZafRequestEvent ZafRequest
  | Invoke Callback "jsval list"
  | InvalidateQueries "string list"
  | ConsoleError string

text \<open>
  The query client's cache: every cached read under its query key, with the flag
  \<open>invalidateQueries\<close> sets. A filter key matches every query key it is a prefix of
  (the library's partial matching of query keys).
\<close>

record CacheEntry =
  entry_data :: jsval
  isInvalidated :: bool

type_synonym QueryCache = "(string list \<times> CacheEntry) list"

text \<open>
  What the caching library decides by its own rules is a parameter of the world, not a
  definition of this theory: \<open>fetches options entry\<close> says whether the library, when a
  query that is not disabled is rendered with these options and this cached read (\<open>None\<close>
  when there is none), runs its \<open>queryFn\<close>; \<open>retries options\<close> is how often it runs a
  rejected \<open>queryFn\<close> again. The staleness window, \<open>refetchOnMount\<close> and \<open>retry\<close> are
  read there.
\<close>

record Library =
  fetches :: "(string \<times> jsval) list \<Rightarrow> CacheEntry option \<Rightarrow> bool"
  retries :: "(string \<times> jsval) list \<Rightarrow> nat"

record World =
  trace :: "Event list"
  cache :: QueryCache
  library :: Library

definition partialMatchKey :: "string list \<Rightarrow> string list \<Rightarrow> bool" where
  "partialMatchKey queryKey filterKey = (take (length filterKey) queryKey = filterKey)"

definition invalidateQueries :: "string list \<Rightarrow> World \<Rightarrow> World" where
  "invalidateQueries filterKey w =
     w \<lparr> trace := trace w @ [InvalidateQueries filterKey],
         cache := map (\<lambda>(queryKey, entry).
                    if partialMatchKey queryKey filterKey
                    then (queryKey, entry \<lparr> isInvalidated := True \<rparr>)
                    else (queryKey, entry)) (cache w) \<rparr>"

definition invoke :: "Callback option \<Rightarrow> jsval list \<Rightarrow> World \<Rightarrow> World" where
  "invoke fn args w =
     (case fn of None \<Rightarrow> w | Some f \<Rightarrow> w \<lparr> trace := trace w @ [Invoke f args] \<rparr>)"

section \<open>The transport adapter (\<open>createNetworkClient\<close> and \<open>fire\<close>)\<close>

text \<open>The field \<open>zaf: any\<close> of the options is a type parameter.\<close>

record 'z NetworkConnector =
  zaf :: 'z
  customObjectKey :: string
  timeout :: "int option"

record FirePayload =
  data :: jsval
  endpoint :: string
  pathParams :: "(string \<times> jsval) list option"
  params :: "(string \<times> jsval) list option"
  "method" :: Method

text \<open>The variables the returned \<open>fire\<close> closes over.\<close>

record NetworkClient =
  nc_headers :: "(string \<times> string) list"
  nc_baseEndpoint :: string
  nc_customObjectKey :: string
  nc_timeout :: "int option"
  nc_zaf :: ZafClient

definition createNetworkClient :: "'z NetworkConnector \<Rightarrow> Env \<Rightarrow> Error + NetworkClient" where
  "createNetworkClient options env =
     (case useInternalZafClient env of
        Inl e \<Rightarrow> Inl e
      | Inr ctx \<Rightarrow>
          Inr \<lparr> nc_headers = [(''Content-Type'', ''application/json'')],
                nc_baseEndpoint = ''/api/v2/custom_objects/'',
                nc_customObjectKey = customObjectKey options,
                nc_timeout = timeout options,
                nc_zaf = ctx_zaf ctx \<rparr>)"

text \<open>The request \<open>fire\<close> builds: lines 29 to 43 of \<open>fire\<close>, up to the call of the transport.\<close>

definition fire_request :: "NetworkClient \<Rightarrow> FirePayload \<Rightarrow> ZafRequest" where
  "fire_request client payload =
     (let url0 = nc_baseEndpoint client @ nc_customObjectKey client @ endpoint payload;
          url1 = (case pathParams payload of None \<Rightarrow> url0 | Some pp \<Rightarrow> convertPathParams url0 pp);
          url2 = (case params payload of None \<Rightarrow> url1 | Some qp \<Rightarrow> convertQueryParams url1 qp)
      in \<lparr> req_url = url2,
           req_type = method payload,
           req_data = (if data payload \<noteq> JNull then JSON_stringify (data payload) else None),
           req_timeout = (case nc_timeout client of
                            None \<Rightarrow> 15000
                          | Some t \<Rightarrow> if t \<noteq> 0 then t else 15000),
           req_headers = nc_headers client,
           req_secure = True \<rparr>)"

text \<open>
  The \<open>catch\<close> block: reading \<open>status\<close> of \<open>null\<close> or \<open>undefined\<close> is a
  \<open>TypeError\<close>; otherwise both branches throw an \<open>Error\<close> whose message is the string
  form of the rejection value.
\<close>

definition normalizeError :: "jsval \<Rightarrow> Error" where
  "normalizeError e =
     (if e = JUndefined \<or> e = JNull
        then TypeError ''Cannot read properties of undefined or null (reading status)''
      else if \<not> truthy (getProp e ''status'') then Error (ToString e)
      else Error (ToString e))"

definition fire :: "NetworkClient \<Rightarrow> FirePayload \<Rightarrow> World \<Rightarrow> (Error + jsval) \<times> World" where
  "fire client payload w =
     (let req = fire_request client payload;
          w' = w \<lparr> trace := trace w @ [ZafRequestEvent req] \<rparr>
      in case nc_zaf client req of
           Inr response \<Rightarrow> (Inr response, w')
         | Inl e \<Rightarrow> (Inl (normalizeError e), w'))"

section \<open>The Query hook (\<open>useQueryCustomObjects\<close>)\<close>

text \<open>
  An optional, nullable parameter of object type: left out, \<open>null\<close>, or an object. An
  object is always truthy, so \<open>if (x)\<close> on such a parameter tests \<open>is_given\<close>.
\<close>

datatype 'a optional = Undefined | Null | Given 'a

fun is_given :: "'a optional \<Rightarrow> bool" where
  "is_given (Given x) = True"
| "is_given Undefined = False"
| "is_given Null = False"

record SingleField =
  sf_by :: string
  sf_value :: jsval

text \<open>
  \<open>HookParams\<close>. The resource key is a JavaScript value because the hook tests its type
  at run time. \<open>filterCriteria\<close> is an object, given by its properties;
  \<open>reactQueryOptions\<close> is the list of the caller's further options (empty when left
  out), which by its type has neither \<open>queryKey\<close> nor \<open>queryFn\<close>. The translation
  function only reshapes what the library returns and is not part of the model.
\<close>

record HookParams =
  hp_customObjectKey :: jsval
  filterCriteria :: "(string \<times> jsval) list optional"
  refetchOnTabChange :: bool
  reactQueryOptions :: "(string \<times> jsval) list"
  searchBySingleField :: "SingleField optional"

text \<open>
  The options object the hook passes to \<open>useQuery\<close>. \<open>queryFn\<close> is the closure
  \<open>() => client.fire(payload)\<close>, kept as its client and its payload.
\<close>

record UseQueryOptions =
  queryKey :: "string list"
  queryFn_client :: NetworkClient
  queryFn_payload :: FirePayload
  otherOptions :: "(string \<times> jsval) list"

fun setProp :: "string \<Rightarrow> jsval \<Rightarrow> (string \<times> jsval) list \<Rightarrow> (string \<times> jsval) list" where
  "setProp key v [] = [(key, v)]"
| "setProp key v ((k, x) # kvs) = (if k = key then (k, v) # kvs else (k, x) # setProp key v kvs)"

text \<open>Object spread \<open>{ ...obj, ...extra }\<close>.\<close>

definition spread :: "(string \<times> jsval) list \<Rightarrow> (string \<times> jsval) list \<Rightarrow> (string \<times> jsval) list" where
  "spread obj extra = foldl (\<lambda>acc (k, v). setProp k v acc) obj extra"

definition useQueryCustomObjects :: "HookParams \<Rightarrow> Env \<Rightarrow> Error + UseQueryOptions" where
  "useQueryCustomObjects p env =
     (if \<not> truthy (hp_customObjectKey p) \<or> typeof (hp_customObjectKey p) \<noteq> ''string''
        then Inl (Error ''invalid customObjectKey'')
      else
        case useInternalZafClient env of
          Inl e \<Rightarrow> Inl e
        | Inr ctx \<Rightarrow>
           (case createNetworkClient
                   \<lparr> zaf = ctx_zaf ctx, customObjectKey = ToString (hp_customObjectKey p),
                     timeout = None \<rparr> env of
              Inl e \<Rightarrow> Inl e
            | Inr client \<Rightarrow>
                if is_given (filterCriteria p) \<and> is_given (searchBySingleField p)
                  then Inl (Error ''You must choose either filterCriteria or searchBySingleField'')
                else
                  (let filterKey =
                         (case searchBySingleField p of
                            Given sf \<Rightarrow> ''custom_object_fields.'' @ sf_by sf
                          | _ \<Rightarrow> []);
                       criteria =
                         (case searchBySingleField p of
                            Given sf \<Rightarrow>
                              JObj [(''$and'',
                                     JArr [JObj [(filterKey, JObj [(''$eq'', sf_value sf)])]])]
                          | _ \<Rightarrow>
                              (case filterCriteria p of
                                 Given obj \<Rightarrow> JObj obj
                               | _ \<Rightarrow> JObj []))
                   in Inr \<lparr> queryKey =
                              [''query-custom-objects-'' @ ToString (hp_customObjectKey p),
                               ToString (hp_customObjectKey p)],
                            queryFn_client = client,
                            queryFn_payload =
                              \<lparr> data = criteria,
                                endpoint = ''/{customObjectKey}/records/search'',
                                pathParams = Some [(''customObjectKey'', hp_customObjectKey p)],
                                params = None,
                                method = POST \<rparr>,
                            otherOptions =
                              spread [(''refetchOnWindowFocus'', JBool (refetchOnTabChange p)),
                                      (''staleTime'', JNum (1000 * 60 * 1))]
                                     (reactQueryOptions p) \<rparr>)))"

text \<open>
  The caching library, as far as the hooks rely on it. The hook spreads the caller's
  further options into the options of \<open>useQuery\<close>, so the library reads them. A query
  whose option \<open>enabled\<close> is \<open>false\<close> is disabled: the library never runs its
  \<open>queryFn\<close> when it is rendered. For any other query the library's own rules, the
  parameter \<open>library\<close> of the world, decide from the options and the cached read whether
  to fetch. A fetch runs \<open>queryFn\<close>, again after each rejection as often as the library
  retries, and a resolved fetch is stored under the query key. A query that is not fetched
  is given the cached value, or \<open>undefined\<close> without one (initial and placeholder data
  are not modelled). \<open>mountQuery\<close> is the rendering of the hook together with that
  fetch, up to its last answer.
\<close>

definition disabled :: "UseQueryOptions \<Rightarrow> bool" where
  "disabled opts = (map_of (otherOptions opts) ''enabled'' = Some (JBool False))"

fun attempt :: "nat \<Rightarrow> NetworkClient \<Rightarrow> FirePayload \<Rightarrow> World \<Rightarrow> (Error + jsval) \<times> World" where
  "attempt 0 client payload w = fire client payload w"
| "attempt (Suc n) client payload w =
     (case fire client payload w of
        (Inr response, w') \<Rightarrow> (Inr response, w')
      | (Inl e, w') \<Rightarrow> attempt n client payload w')"

definition storeEntry :: "string list \<Rightarrow> jsval \<Rightarrow> World \<Rightarrow> World" where
  "storeEntry key v w =
     w \<lparr> cache := (key, \<lparr> entry_data = v, isInvalidated = False \<rparr>)
                   # filter (\<lambda>(k, entry). k \<noteq> key) (cache w) \<rparr>"

definition mountQuery :: "HookParams \<Rightarrow> Env \<Rightarrow> World \<Rightarrow> (Error + jsval) \<times> World" where
  "mountQuery p env w =
     (case useQueryCustomObjects p env of
        Inl e \<Rightarrow> (Inl e, w)
      | Inr opts \<Rightarrow>
          if \<not> disabled opts
             \<and> fetches (library w) (otherOptions opts) (map_of (cache w) (queryKey opts))
          then (case attempt (retries (library w) (otherOptions opts))
                       (queryFn_client opts) (queryFn_payload opts) w of
                  (Inr response, w') \<Rightarrow> (Inr response, storeEntry (queryKey opts) response w')
                | (Inl e, w') \<Rightarrow> (Inl e, w'))
          else (case map_of (cache w) (queryKey opts) of
                  Some entry \<Rightarrow> (Inr (entry_data entry), w)
                | None \<Rightarrow> (Inr JUndefined, w)))"

section \<open>The mutation hooks\<close>

text \<open>
  \<open>execute\<close> is the library's \<open>mutateAsync\<close>: it runs \<open>mutationFn\<close>, then
  \<open>onSuccess\<close> when that resolved and \<open>onError\<close> when it threw, and resolves or
  rejects accordingly; an \<open>onError\<close> that throws replaces the error. The query client
  Insert and Delete ask the library for (\<open>useQueryClient\<close>) is the one whose cache the
  world holds.
\<close>

record MutationHook =
  mh_client :: NetworkClient
  mh_customObjectKey :: string
  mh_onSuccessFn :: "Callback option"
  mh_postActionFn :: "Callback option"

text \<open>The input of Insert and Update: the properties the hooks read from it.\<close>

record RecordInput =
  name :: jsval
  custom_object_fields :: jsval

subsection \<open>Insert (\<open>usePostCustomObjects\<close>, \<open>src/hooks/insert.ts\<close>)\<close>

definition usePostCustomObjects :: "jsval \<Rightarrow> Callback option \<Rightarrow> Env \<Rightarrow> Error + MutationHook" where
  "usePostCustomObjects key postActionFn env =
     (if \<not> truthy key \<or> typeof key \<noteq> ''string'' then Inl (Error ''invalid customObjectKey'')
      else
        case useInternalZafClient env of
          Inl e \<Rightarrow> Inl e
        | Inr ctx \<Rightarrow>
           (case createNetworkClient
                   \<lparr> zaf = ctx_zaf ctx, customObjectKey = ToString key, timeout = None \<rparr> env of
              Inl e \<Rightarrow> Inl e
            | Inr client \<Rightarrow>
                Inr \<lparr> mh_client = client, mh_customObjectKey = ToString key,
                      mh_onSuccessFn = None, mh_postActionFn = postActionFn \<rparr>))"

definition post_mutationFn :: "MutationHook \<Rightarrow> RecordInput \<Rightarrow> World \<Rightarrow> (Error + jsval) \<times> World" where
  "post_mutationFn h input w =
     (if \<not> truthy (name input) \<or> typeof (name input) \<noteq> ''string''
        then (Inl (Error ''name is required and must be a string''), w)
      else if \<not> truthy (custom_object_fields input)
                \<or> typeof (custom_object_fields input) \<noteq> ''object''
        then (Inl (Error ''custom_object_fields is required and must be an object''), w)
      else
        (let body = JObj [(''custom_object_record'',
                           JObj [(''name'', name input),
                                 (''custom_object_fields'', custom_object_fields input)])]
         in fire (mh_client h)
              \<lparr> data = body,
                endpoint = ''/records'',
                pathParams = Some [(''customObjectKey'', JStr (mh_customObjectKey h))],
                params = None,
                method = POST \<rparr> w))"

definition post_onSuccess :: "MutationHook \<Rightarrow> World \<Rightarrow> World" where
  "post_onSuccess h w =
     invoke (mh_postActionFn h) []
       (invalidateQueries [''query-custom-objects-'' @ mh_customObjectKey h] w)"

definition post_onError :: "Error \<Rightarrow> World \<Rightarrow> World" where
  "post_onError e w =
     w \<lparr> trace := trace w @ [ConsoleError ''Error creating custom object record:''] \<rparr>"

definition post_execute :: "MutationHook \<Rightarrow> RecordInput \<Rightarrow> World \<Rightarrow> (Error + jsval) \<times> World" where
  "post_execute h input w =
     (case post_mutationFn h input w of
        (Inr response, w') \<Rightarrow> (Inr response, post_onSuccess h w')
      | (Inl e, w') \<Rightarrow> (Inl e, post_onError e w'))"

subsection \<open>Update (\<open>useUpdateCustomObjects\<close>, \<open>src/hooks/custom-objects/update.ts\<close>)\<close>

definition useUpdateCustomObjects ::
  "jsval \<Rightarrow> Callback option \<Rightarrow> Callback option \<Rightarrow> Env \<Rightarrow> Error + MutationHook" where
  "useUpdateCustomObjects key postActionFn onSuccessFn env =
     (if \<not> truthy key \<or> typeof key \<noteq> ''string'' then Inl (Error ''invalid customObjectKey'')
      else
        case useInternalZafClient env of
          Inl e \<Rightarrow> Inl e
        | Inr ctx \<Rightarrow>
           (case createNetworkClient
                   \<lparr> zaf = ctx_zaf ctx, customObjectKey = ToString key, timeout = None \<rparr> env of
              Inl e \<Rightarrow> Inl e
            | Inr client \<Rightarrow>
                Inr \<lparr> mh_client = client, mh_customObjectKey = ToString key,
                      mh_onSuccessFn = onSuccessFn, mh_postActionFn = postActionFn \<rparr>))"

definition update_mutationFn ::
  "MutationHook \<Rightarrow> RecordInput \<Rightarrow> jsval \<Rightarrow> World \<Rightarrow> (Error + jsval) \<times> World" where
  "update_mutationFn h input recordId w =
     (let record0 = [(''custom_object_fields'', custom_object_fields input)];
          record1 = (if truthy (name input) then record0 @ [(''name'', name input)] else record0);
          body = JObj [(''custom_object_record'', JObj record1)]
      in if \<not> truthy recordId \<or> typeof recordId \<noteq> ''string''
           then (Inl (Error ''invalid recordId - must be provided in the mapped data''), w)
         else
           (case fire (mh_client h)
                   \<lparr> data = body,
                     endpoint = ''/records/{id}'',
                     pathParams = Some [(''id'', recordId)],
                     params = None,
                     method = PUT \<rparr> w of
              (Inl e, w') \<Rightarrow> (Inl e, w')
            | (Inr response, w') \<Rightarrow> (Inr (JObj [(''id'', recordId)]), w')))"

definition update_onSuccess :: "MutationHook \<Rightarrow> jsval \<Rightarrow> World \<Rightarrow> World" where
  "update_onSuccess h result w =
     invoke (mh_postActionFn h) []
       (invoke (mh_onSuccessFn h) [getProp result ''id''] w)"

definition update_onError :: "MutationHook \<Rightarrow> Error" where
  "update_onError h =
     Error (''Error updating custom object record with key '' @ mh_customObjectKey h)"

definition update_execute ::
  "MutationHook \<Rightarrow> RecordInput \<Rightarrow> jsval \<Rightarrow> World \<Rightarrow> (Error + jsval) \<times> World" where
  "update_execute h input recordId w =
     (case update_mutationFn h input recordId w of
        (Inr result, w') \<Rightarrow> (Inr result, update_onSuccess h result w')
      | (Inl e, w') \<Rightarrow> (Inl (update_onError h), w'))"

subsection \<open>Delete (\<open>useDeleteCustomObjects\<close>)\<close>

text \<open>
  This hook does not destructure the context: the \<open>zaf\<close> it puts into the options of
  \<open>createNetworkClient\<close> is the whole context object.
\<close>

definition useDeleteCustomObjects ::
  "jsval \<Rightarrow> Callback option \<Rightarrow> Callback option \<Rightarrow> Env \<Rightarrow> Error + MutationHook" where
  "useDeleteCustomObjects key postActionFn onSuccessFn env =
     (if \<not> truthy key \<or> typeof key \<noteq> ''string'' then Inl (Error ''invalid customObjectKey'')
      else
        case useInternalZafClient env of
          Inl e \<Rightarrow> Inl e
        | Inr ctx \<Rightarrow>
           (case createNetworkClient
                   \<lparr> zaf = ctx, customObjectKey = ToString key, timeout = None \<rparr> env of
              Inl e \<Rightarrow> Inl e
            | Inr client \<Rightarrow>
                Inr \<lparr> mh_client = client, mh_customObjectKey = ToString key,
                      mh_onSuccessFn = onSuccessFn, mh_postActionFn = postActionFn \<rparr>))"





section \<open>Properties of the templating functions\<close>
















section \<open>Properties of the Query hook\<close>

lemma invalid_key_iff:
  "(\<not> truthy k \<or> typeof k \<noteq> ''string'') \<longleftrightarrow> (k = JStr [] \<or> typeof k \<noteq> ''string'')"
  by (cases k) auto

text \<open>What the hook registers when its parameters are accepted.\<close>

lemma useQueryCustomObjects_accepted:
  assumes "useQueryCustomObjects p env = Inr opts"
  shows "\<exists>ctx. env = Some ctx
           \<and> truthy (hp_customObjectKey p) \<and> typeof (hp_customObjectKey p) = ''string''
           \<and> \<not> (is_given (filterCriteria p) \<and> is_given (searchBySingleField p))
           \<and> queryKey opts = [''query-custom-objects-'' @ ToString (hp_customObjectKey p),
                               ToString (hp_customObjectKey p)]
           \<and> queryFn_client opts =
                \<lparr> nc_headers = [(''Content-Type'', ''application/json'')],
                  nc_baseEndpoint = ''/api/v2/custom_objects/'',
                  nc_customObjectKey = ToString (hp_customObjectKey p),
                  nc_timeout = None,
                  nc_zaf = ctx_zaf ctx \<rparr>
           \<and> endpoint (queryFn_payload opts) = ''/{customObjectKey}/records/search''
           \<and> pathParams (queryFn_payload opts) = Some [(''customObjectKey'', hp_customObjectKey p)]
           \<and> params (queryFn_payload opts) = None
           \<and> method (queryFn_payload opts) = POST
           \<and> data (queryFn_payload opts) =
                (case searchBySingleField p of
                   Given sf \<Rightarrow>
                     JObj [(''$and'',
                            JArr [JObj [(''custom_object_fields.'' @ sf_by sf,
                                         JObj [(''$eq'', sf_value sf)])]])]
                 | _ \<Rightarrow> (case filterCriteria p of Given obj \<Rightarrow> JObj obj | _ \<Rightarrow> JObj []))"
proof (cases env)
  case None
  with assms show ?thesis
    by (simp add: useQueryCustomObjects_def useInternalZafClient_def split: if_splits)
next
  case (Some ctx)
  with assms show ?thesis
    by (cases "searchBySingleField p")
       (auto simp: useQueryCustomObjects_def useInternalZafClient_def createNetworkClient_def
          Let_def split: if_splits)
qed

lemma useQueryCustomObjects_accepts:
  assumes "truthy (hp_customObjectKey p)" and "typeof (hp_customObjectKey p) = ''string''"
    and "\<not> (is_given (filterCriteria p) \<and> is_given (searchBySingleField p))"
  shows "\<exists>opts. useQueryCustomObjects p (Some ctx) = Inr opts"
  using assms
  by (simp add: useQueryCustomObjects_def useInternalZafClient_def createNetworkClient_def Let_def)

lemma search_url_users:
  "convertPathParams ''/api/v2/custom_objects/users/{customObjectKey}/records/search''
     [(''customObjectKey'', JStr ''users'')] =
   ''/api/v2/custom_objects/users/users/records/search''"
  by (simp add: convertPathParams_def replace_def)

text \<open>
  C1. For the resource key \<open>users\<close> the URL of the search request the Query hook hands
  to the transport is not \<open>/api/v2/custom_objects/users/records/search\<close>: the adapter
  puts the key after the base path, the hook's endpoint starts with the placeholder of the
  key again, and the URL is \<open>/api/v2/custom_objects/users/users/records/search\<close>.
\<close>

theorem query_search_url_repeats_key:
  assumes "hp_customObjectKey p = JStr ''users''"
    and "useQueryCustomObjects p env = Inr opts"
  shows "req_url (fire_request (queryFn_client opts) (queryFn_payload opts)) =
           ''/api/v2/custom_objects/users/users/records/search''
         \<and> req_url (fire_request (queryFn_client opts) (queryFn_payload opts)) \<noteq>
           ''/api/v2/custom_objects/users/records/search''"
proof -
  from useQueryCustomObjects_accepted [OF assms(2)] assms(1)
  have "req_url (fire_request (queryFn_client opts) (queryFn_payload opts)) =
          convertPathParams ''/api/v2/custom_objects/users/{customObjectKey}/records/search''
            [(''customObjectKey'', JStr ''users'')]"
    by (auto simp: fire_request_def Let_def)
  then show ?thesis
    by (simp add: search_url_users)
qed

theorem query_search_url_repeats_key_witness:
  "\<exists>opts. useQueryCustomObjects
            \<lparr> hp_customObjectKey = JStr ''users'', filterCriteria = Undefined,
              refetchOnTabChange = True, reactQueryOptions = [],
              searchBySingleField = Undefined \<rparr>
            (CustomObjectsProvider (\<lambda>r. Inr JNull)) = Inr opts
         \<and> req_url (fire_request (queryFn_client opts) (queryFn_payload opts)) =
             ''/api/v2/custom_objects/users/users/records/search''"
proof -
  let ?p = "\<lparr> hp_customObjectKey = JStr ''users'', filterCriteria = Undefined,
              refetchOnTabChange = True, reactQueryOptions = [],
              searchBySingleField = Undefined \<rparr>"
  obtain opts where ok: "useQueryCustomObjects ?p (CustomObjectsProvider (\<lambda>r. Inr JNull)) = Inr opts"
    using useQueryCustomObjects_accepts [of ?p] by (auto simp: CustomObjectsProvider_def)
  have "hp_customObjectKey ?p = JStr ''users''" by simp
  from query_search_url_repeats_key [OF this ok] ok show ?thesis by blast
qed

text \<open>
  C2. When the filter and the single-field search are both given, the Query hook throws:
  it registers no query, so rendering it leaves the world as it was, without a request to
  the transport, whatever the cache holds. With a valid resource key inside a provider
  the error is the configuration error that names the two parameters; otherwise it is the
  error of the earlier check.
\<close>

theorem query_rejects_filter_with_single_field:
  assumes "is_given (filterCriteria p)" and "is_given (searchBySingleField p)"
  shows "\<exists>e. useQueryCustomObjects p env = Inl e
             \<and> mountQuery p env w = (Inl e, w)
             \<and> (truthy (hp_customObjectKey p) \<and> typeof (hp_customObjectKey p) = ''string''
                  \<and> env \<noteq> None
                \<longrightarrow> e = Error ''You must choose either filterCriteria or searchBySingleField'')"
proof (cases "useQueryCustomObjects p env")
  case (Inr opts)
  from useQueryCustomObjects_accepted [OF this] assms show ?thesis
    by blast
next
  case (Inl e)
  have "truthy (hp_customObjectKey p) \<and> typeof (hp_customObjectKey p) = ''string'' \<and> env \<noteq> None
        \<longrightarrow> e = Error ''You must choose either filterCriteria or searchBySingleField''"
    using Inl assms
    by (auto simp: useQueryCustomObjects_def useInternalZafClient_def createNetworkClient_def)
  with Inl show ?thesis
    by (simp add: mountQuery_def)
qed

theorem query_rejects_filter_with_single_field_witness:
  "mountQuery
     \<lparr> hp_customObjectKey = JStr ''users'',
       filterCriteria = Given [(''filter'', JObj [(''status'', JStr ''active'')])],
       refetchOnTabChange = True, reactQueryOptions = [],
       searchBySingleField = Given \<lparr> sf_by = ''status'', sf_value = JStr ''active'' \<rparr> \<rparr>
     (CustomObjectsProvider (\<lambda>r. Inr JNull)) \<lparr> trace = [], cache = [],
       library = \<lparr> fetches = (\<lambda>opts entry. True), retries = (\<lambda>opts. 3) \<rparr> \<rparr> =
   (Inl (Error ''You must choose either filterCriteria or searchBySingleField''),
    \<lparr> trace = [], cache = [],
       library = \<lparr> fetches = (\<lambda>opts entry. True), retries = (\<lambda>opts. 3) \<rparr> \<rparr>)"
  using query_rejects_filter_with_single_field
    [of "\<lparr> hp_customObjectKey = JStr ''users'',
           filterCriteria = Given [(''filter'', JObj [(''status'', JStr ''active'')])],
           refetchOnTabChange = True, reactQueryOptions = [],
           searchBySingleField = Given \<lparr> sf_by = ''status'', sf_value = JStr ''active'' \<rparr> \<rparr>"
        "CustomObjectsProvider (\<lambda>r. Inr JNull)" "\<lparr> trace = [], cache = [],
       library = \<lparr> fetches = (\<lambda>opts entry. True), retries = (\<lambda>opts. 3) \<rparr> \<rparr>"]
  by (auto simp: CustomObjectsProvider_def)

text \<open>
  C3. With a valid resource key inside a provider: given the single-field search
  \<open>{by: "status", value: "active"}\<close> and no filter, the effective filter the hook fires
  is \<open>{ $and: [ { "custom_object_fields.status": { $eq: "active" } } ] }\<close>, and the
  request body is its JSON text; given neither, the effective filter is the empty object
  and the body is \<open>{}\<close>.
\<close>

theorem query_effective_filter:
  assumes "truthy (hp_customObjectKey p)" and "typeof (hp_customObjectKey p) = ''string''"
  shows "(searchBySingleField p = Given \<lparr> sf_by = ''status'', sf_value = JStr ''active'' \<rparr>
          \<and> \<not> is_given (filterCriteria p)
          \<longrightarrow> (\<exists>opts. useQueryCustomObjects p (Some ctx) = Inr opts
                 \<and> data (queryFn_payload opts) =
                     JObj [(''$and'',
                            JArr [JObj [(''custom_object_fields.status'',
                                         JObj [(''$eq'', JStr ''active'')])]])]
                 \<and> req_data (fire_request (queryFn_client opts) (queryFn_payload opts)) =
                     Some (''{'' @ quoteJSONString ''$and'' @ '':[{''
                           @ quoteJSONString ''custom_object_fields.status'' @ '':{''
                           @ quoteJSONString ''$eq'' @ '':'' @ quoteJSONString ''active''
                           @ ''}}]}'')))
         \<and> (\<not> is_given (searchBySingleField p) \<and> \<not> is_given (filterCriteria p)
          \<longrightarrow> (\<exists>opts. useQueryCustomObjects p (Some ctx) = Inr opts
                 \<and> data (queryFn_payload opts) = JObj []
                 \<and> req_data (fire_request (queryFn_client opts) (queryFn_payload opts)) =
                     Some ''{}''))"
proof (intro conjI impI)
  assume h: "searchBySingleField p = Given \<lparr> sf_by = ''status'', sf_value = JStr ''active'' \<rparr>
             \<and> \<not> is_given (filterCriteria p)"
  then obtain opts where ok: "useQueryCustomObjects p (Some ctx) = Inr opts"
    using useQueryCustomObjects_accepts [OF assms, of ctx] by auto
  from useQueryCustomObjects_accepted [OF ok] h
  have d: "data (queryFn_payload opts) =
             JObj [(''$and'',
                    JArr [JObj [(''custom_object_fields.status'',
                                 JObj [(''$eq'', JStr ''active'')])]])]"
    by auto
  then have "req_data (fire_request (queryFn_client opts) (queryFn_payload opts)) =
               Some (''{'' @ quoteJSONString ''$and'' @ '':[{''
                     @ quoteJSONString ''custom_object_fields.status'' @ '':{''
                     @ quoteJSONString ''$eq'' @ '':'' @ quoteJSONString ''active''
                     @ ''}}]}'')"
    by (simp add: fire_request_def Let_def)
  with ok d show "\<exists>opts. useQueryCustomObjects p (Some ctx) = Inr opts
                 \<and> data (queryFn_payload opts) =
                     JObj [(''$and'',
                            JArr [JObj [(''custom_object_fields.status'',
                                         JObj [(''$eq'', JStr ''active'')])]])]
                 \<and> req_data (fire_request (queryFn_client opts) (queryFn_payload opts)) =
                     Some (''{'' @ quoteJSONString ''$and'' @ '':[{''
                           @ quoteJSONString ''custom_object_fields.status'' @ '':{''
                           @ quoteJSONString ''$eq'' @ '':'' @ quoteJSONString ''active''
                           @ ''}}]}'')"
    by blast
next
  assume h: "\<not> is_given (searchBySingleField p) \<and> \<not> is_given (filterCriteria p)"
  then obtain opts where ok: "useQueryCustomObjects p (Some ctx) = Inr opts"
    using useQueryCustomObjects_accepts [OF assms, of ctx] by auto
  from useQueryCustomObjects_accepted [OF ok] h
  have d: "data (queryFn_payload opts) = JObj []"
    by (cases "searchBySingleField p"; cases "filterCriteria p") auto
  then have "req_data (fire_request (queryFn_client opts) (queryFn_payload opts)) = Some ''{}''"
    by (simp add: fire_request_def Let_def)
  with ok d show "\<exists>opts. useQueryCustomObjects p (Some ctx) = Inr opts
                 \<and> data (queryFn_payload opts) = JObj []
                 \<and> req_data (fire_request (queryFn_client opts) (queryFn_payload opts)) =
                     Some ''{}''"
    by blast
qed

theorem query_effective_filter_witness:
  "(\<exists>opts. useQueryCustomObjects
             \<lparr> hp_customObjectKey = JStr ''users'', filterCriteria = Undefined,
               refetchOnTabChange = True, reactQueryOptions = [],
               searchBySingleField = Given \<lparr> sf_by = ''status'', sf_value = JStr ''active'' \<rparr> \<rparr>
             (Some \<lparr> ctx_zaf = (\<lambda>r. Inr JNull) \<rparr>) = Inr opts
          \<and> data (queryFn_payload opts) =
              JObj [(''$and'',
                     JArr [JObj [(''custom_object_fields.status'',
                                  JObj [(''$eq'', JStr ''active'')])]])])
   \<and> (\<exists>opts. useQueryCustomObjects
             \<lparr> hp_customObjectKey = JStr ''users'', filterCriteria = Undefined,
               refetchOnTabChange = True, reactQueryOptions = [],
               searchBySingleField = Null \<rparr>
             (Some \<lparr> ctx_zaf = (\<lambda>r. Inr JNull) \<rparr>) = Inr opts
          \<and> data (queryFn_payload opts) = JObj []
          \<and> req_data (fire_request (queryFn_client opts) (queryFn_payload opts)) = Some ''{}'')"
proof -
  let ?given = "\<lparr> hp_customObjectKey = JStr ''users'', filterCriteria = Undefined,
               refetchOnTabChange = True, reactQueryOptions = [],
               searchBySingleField = Given \<lparr> sf_by = ''status'', sf_value = JStr ''active'' \<rparr> \<rparr>"
  let ?neither = "\<lparr> hp_customObjectKey = JStr ''users'', filterCriteria = Undefined,
               refetchOnTabChange = True, reactQueryOptions = [],
               searchBySingleField = Null \<rparr>"
  have a: "truthy (hp_customObjectKey ?given)" "typeof (hp_customObjectKey ?given) = ''string''"
    by simp_all
  have b: "truthy (hp_customObjectKey ?neither)" "typeof (hp_customObjectKey ?neither) = ''string''"
    by simp_all
  from query_effective_filter [OF a, of "\<lparr> ctx_zaf = (\<lambda>r. Inr JNull) \<rparr>"]
       query_effective_filter [OF b, of "\<lparr> ctx_zaf = (\<lambda>r. Inr JNull) \<rparr>"]
  show ?thesis
    by (simp del: ex_simps) blast
qed

section \<open>Properties of the hooks' validation\<close>

text \<open>
  C5. A resource key that is the empty string or not a string makes each of the four
  hooks throw \<open>invalid customObjectKey\<close> when it is called, in every environment: no
  hook object is returned whose \<open>execute\<close> or \<open>queryFn\<close> could fire, and rendering the
  Query hook leaves the world, its trace of requests included, as it was.
\<close>

theorem hooks_reject_invalid_key:
  assumes "k = JStr [] \<or> typeof k \<noteq> ''string''"
  shows "useQueryCustomObjects (p \<lparr> hp_customObjectKey := k \<rparr>) env =
           Inl (Error ''invalid customObjectKey'')
         \<and> mountQuery (p \<lparr> hp_customObjectKey := k \<rparr>) env w =
           (Inl (Error ''invalid customObjectKey''), w)
         \<and> usePostCustomObjects k postActionFn env = Inl (Error ''invalid customObjectKey'')
         \<and> useUpdateCustomObjects k postActionFn onSuccessFn env =
           Inl (Error ''invalid customObjectKey'')
         \<and> useDeleteCustomObjects k postActionFn onSuccessFn env =
           Inl (Error ''invalid customObjectKey'')"
proof -
  have bad: "\<not> truthy k \<or> typeof k \<noteq> ''string''"
    using assms by (simp only: invalid_key_iff)
  then have q: "useQueryCustomObjects (p \<lparr> hp_customObjectKey := k \<rparr>) env =
                  Inl (Error ''invalid customObjectKey'')"
    by (auto simp: useQueryCustomObjects_def)
  then have m: "mountQuery (p \<lparr> hp_customObjectKey := k \<rparr>) env w =
                  (Inl (Error ''invalid customObjectKey''), w)"
    by (simp add: mountQuery_def)
  from bad have i: "usePostCustomObjects k postActionFn env = Inl (Error ''invalid customObjectKey'')"
    by (auto simp: usePostCustomObjects_def)
  from bad have u: "useUpdateCustomObjects k postActionFn onSuccessFn env =
                      Inl (Error ''invalid customObjectKey'')"
    by (auto simp: useUpdateCustomObjects_def)
  from bad have d: "useDeleteCustomObjects k postActionFn onSuccessFn env =
                      Inl (Error ''invalid customObjectKey'')"
    by (auto simp: useDeleteCustomObjects_def)
  from q m i u d show ?thesis by simp
qed

theorem hooks_reject_invalid_key_witness:
  "usePostCustomObjects (JStr []) None (CustomObjectsProvider (\<lambda>r. Inr JNull)) =
     Inl (Error ''invalid customObjectKey'')
   \<and> useUpdateCustomObjects (JNum 7) None None (CustomObjectsProvider (\<lambda>r. Inr JNull)) =
     Inl (Error ''invalid customObjectKey'')
   \<and> useDeleteCustomObjects JUndefined None None (CustomObjectsProvider (\<lambda>r. Inr JNull)) =
     Inl (Error ''invalid customObjectKey'')
   \<and> mountQuery
       \<lparr> hp_customObjectKey = JNull, filterCriteria = Undefined, refetchOnTabChange = True,
         reactQueryOptions = [], searchBySingleField = Undefined \<rparr>
       (CustomObjectsProvider (\<lambda>r. Inr JNull)) \<lparr> trace = [], cache = [],
       library = \<lparr> fetches = (\<lambda>opts entry. True), retries = (\<lambda>opts. 3) \<rparr> \<rparr> =
     (Inl (Error ''invalid customObjectKey''), \<lparr> trace = [], cache = [],
       library = \<lparr> fetches = (\<lambda>opts entry. True), retries = (\<lambda>opts. 3) \<rparr> \<rparr>)"
proof -
  have a: "JStr [] = JStr [] \<or> typeof (JStr []) \<noteq> ''string''" by simp
  have b: "JNum 7 = JStr [] \<or> typeof (JNum 7) \<noteq> ''string''" by simp
  have c: "JUndefined = JStr [] \<or> typeof JUndefined \<noteq> ''string''" by simp
  have d: "JNull = JStr [] \<or> typeof JNull \<noteq> ''string''" by simp
  from hooks_reject_invalid_key [OF a] hooks_reject_invalid_key [OF b]
       hooks_reject_invalid_key [OF c]
       hooks_reject_invalid_key [OF d,
         of "\<lparr> hp_customObjectKey = JNull, filterCriteria = Undefined, refetchOnTabChange = True,
               reactQueryOptions = [], searchBySingleField = Undefined \<rparr>"
            "CustomObjectsProvider (\<lambda>r. Inr JNull)" "\<lparr> trace = [], cache = [],
       library = \<lparr> fetches = (\<lambda>opts entry. True), retries = (\<lambda>opts. 3) \<rparr> \<rparr>"]
  show ?thesis by simp
qed

text \<open>
  C6. Whatever Insert hook \<open>h\<close> executes it: the input with the empty name and the
  fields \<open>{a: 1}\<close> is rejected with the error about the name before \<open>fire\<close> is called,
  so no request joins the trace (the error handler's log line is all that does). The
  input with the name \<open>x\<close> and the empty mapping passes both checks: the mutation is
  exactly the call of \<open>fire\<close> with the POST payload for \<open>/records\<close>, whose first
  effect is that request to the transport, its body the record with the name and the
  empty mapping.
\<close>

theorem insert_validation:
  "post_execute h \<lparr> name = JStr [], custom_object_fields = JObj [(''a'', JNum 1)] \<rparr> w =
     (Inl (Error ''name is required and must be a string''),
      w \<lparr> trace := trace w @ [ConsoleError ''Error creating custom object record:''] \<rparr>)
   \<and> post_mutationFn h \<lparr> name = JStr [], custom_object_fields = JObj [(''a'', JNum 1)] \<rparr> w =
     (Inl (Error ''name is required and must be a string''), w)
   \<and> post_mutationFn h \<lparr> name = JStr ''x'', custom_object_fields = JObj [] \<rparr> w =
     fire (mh_client h)
       \<lparr> data = JObj [(''custom_object_record'',
                        JObj [(''name'', JStr ''x''), (''custom_object_fields'', JObj [])])],
         endpoint = ''/records'',
         pathParams = Some [(''customObjectKey'', JStr (mh_customObjectKey h))],
         params = None,
         method = POST \<rparr> w
   \<and> (\<exists>req rest.
         trace (snd (post_execute h \<lparr> name = JStr ''x'', custom_object_fields = JObj [] \<rparr> w)) =
           trace w @ ZafRequestEvent req # rest
         \<and> req_type req = POST
         \<and> req_data req =
             Some (''{'' @ quoteJSONString ''custom_object_record'' @ '':{''
                   @ quoteJSONString ''name'' @ '':'' @ quoteJSONString ''x'' @ '',''
                   @ quoteJSONString ''custom_object_fields'' @ '':{}}}''))"
proof (intro conjI)
  show "post_execute h \<lparr> name = JStr [], custom_object_fields = JObj [(''a'', JNum 1)] \<rparr> w =
     (Inl (Error ''name is required and must be a string''),
      w \<lparr> trace := trace w @ [ConsoleError ''Error creating custom object record:''] \<rparr>)"
    by (simp add: post_execute_def post_mutationFn_def post_onError_def)
  show "post_mutationFn h \<lparr> name = JStr [], custom_object_fields = JObj [(''a'', JNum 1)] \<rparr> w =
     (Inl (Error ''name is required and must be a string''), w)"
    by (simp add: post_mutationFn_def)
  show "post_mutationFn h \<lparr> name = JStr ''x'', custom_object_fields = JObj [] \<rparr> w =
     fire (mh_client h)
       \<lparr> data = JObj [(''custom_object_record'',
                        JObj [(''name'', JStr ''x''), (''custom_object_fields'', JObj [])])],
         endpoint = ''/records'',
         pathParams = Some [(''customObjectKey'', JStr (mh_customObjectKey h))],
         params = None,
         method = POST \<rparr> w"
    by (simp add: post_mutationFn_def)
  let ?payload = "\<lparr> data = JObj [(''custom_object_record'',
                        JObj [(''name'', JStr ''x''), (''custom_object_fields'', JObj [])])],
         endpoint = ''/records'',
         pathParams = Some [(''customObjectKey'', JStr (mh_customObjectKey h))],
         params = None,
         method = POST \<rparr>"
  let ?req = "fire_request (mh_client h) ?payload"
  have t: "\<exists>rest. trace (snd (post_execute h \<lparr> name = JStr ''x'', custom_object_fields = JObj [] \<rparr> w)) =
             trace w @ ZafRequestEvent ?req # rest"
    by (cases "nc_zaf (mh_client h) ?req")
       (simp_all add: post_execute_def post_mutationFn_def fire_def Let_def post_onError_def
          post_onSuccess_def invalidateQueries_def invoke_def split: option.split)
  have m: "req_type ?req = POST"
    by (simp add: fire_request_def Let_def)
  have b: "req_data ?req =
             Some (''{'' @ quoteJSONString ''custom_object_record'' @ '':{''
                   @ quoteJSONString ''name'' @ '':'' @ quoteJSONString ''x'' @ '',''
                   @ quoteJSONString ''custom_object_fields'' @ '':{}}}'')"
    by (simp add: fire_request_def Let_def quoteJSONString_def escape_char_def)
  from t m b show "\<exists>req rest.
         trace (snd (post_execute h \<lparr> name = JStr ''x'', custom_object_fields = JObj [] \<rparr> w)) =
           trace w @ ZafRequestEvent req # rest
         \<and> req_type req = POST
         \<and> req_data req =
             Some (''{'' @ quoteJSONString ''custom_object_record'' @ '':{''
                   @ quoteJSONString ''name'' @ '':'' @ quoteJSONString ''x'' @ '',''
                   @ quoteJSONString ''custom_object_fields'' @ '':{}}}'')"
    by blast
qed

theorem insert_validation_witness:
  "\<exists>h. usePostCustomObjects (JStr ''users'') None (CustomObjectsProvider (\<lambda>r. Inr JNull)) = Inr h
      \<and> post_execute h \<lparr> name = JStr [], custom_object_fields = JObj [(''a'', JNum 1)] \<rparr>
           \<lparr> trace = [], cache = [],
       library = \<lparr> fetches = (\<lambda>opts entry. True), retries = (\<lambda>opts. 3) \<rparr> \<rparr> =
          (Inl (Error ''name is required and must be a string''),
           \<lparr> trace = [ConsoleError ''Error creating custom object record:''], cache = [],
       library = \<lparr> fetches = (\<lambda>opts entry. True), retries = (\<lambda>opts. 3) \<rparr> \<rparr>)
      \<and> (\<exists>req rest.
            trace (snd (post_execute h \<lparr> name = JStr ''x'', custom_object_fields = JObj [] \<rparr>
                          \<lparr> trace = [], cache = [],
       library = \<lparr> fetches = (\<lambda>opts entry. True), retries = (\<lambda>opts. 3) \<rparr> \<rparr>)) = ZafRequestEvent req # rest
            \<and> req_type req = POST)"
proof -
  obtain h where h: "usePostCustomObjects (JStr ''users'') None
                       (CustomObjectsProvider (\<lambda>r. Inr JNull)) = Inr h"
    by (simp add: usePostCustomObjects_def useInternalZafClient_def createNetworkClient_def
          CustomObjectsProvider_def)
  from insert_validation [of h "\<lparr> trace = [], cache = [],
       library = \<lparr> fetches = (\<lambda>opts entry. True), retries = (\<lambda>opts. 3) \<rparr> \<rparr>"]
  have "post_execute h \<lparr> name = JStr [], custom_object_fields = JObj [(''a'', JNum 1)] \<rparr>
           \<lparr> trace = [], cache = [],
       library = \<lparr> fetches = (\<lambda>opts entry. True), retries = (\<lambda>opts. 3) \<rparr> \<rparr> =
          (Inl (Error ''name is required and must be a string''),
           \<lparr> trace = [ConsoleError ''Error creating custom object record:''], cache = [],
       library = \<lparr> fetches = (\<lambda>opts entry. True), retries = (\<lambda>opts. 3) \<rparr> \<rparr>)
        \<and> (\<exists>req rest.
            trace (snd (post_execute h \<lparr> name = JStr ''x'', custom_object_fields = JObj [] \<rparr>
                          \<lparr> trace = [], cache = [],
       library = \<lparr> fetches = (\<lambda>opts entry. True), retries = (\<lambda>opts. 3) \<rparr> \<rparr>)) = ZafRequestEvent req # rest
            \<and> req_type req = POST)"
    by (simp del: ex_simps) blast
  with h show ?thesis by blast
qed

section \<open>Properties of the transport adapter\<close>

lemma createNetworkClient_Inr:
  assumes "createNetworkClient opts env = Inr client"
  shows "nc_headers client = [(''Content-Type'', ''application/json'')]
         \<and> nc_baseEndpoint client = ''/api/v2/custom_objects/''
         \<and> nc_customObjectKey client = customObjectKey opts
         \<and> nc_timeout client = timeout opts
         \<and> (\<exists>ctx. env = Some ctx \<and> nc_zaf client = ctx_zaf ctx)"
  using assms
  by (cases env) (auto simp: createNetworkClient_def useInternalZafClient_def)

lemma fire_trace:
  "trace (snd (fire client payload w)) = trace w @ [ZafRequestEvent (fire_request client payload)]"
  by (cases "nc_zaf client (fire_request client payload)") (simp_all add: fire_def Let_def)

lemma fire_cache: "cache (snd (fire client payload w)) = cache w"
  by (cases "nc_zaf client (fire_request client payload)") (simp_all add: fire_def Let_def)

text \<open>
  C7, as stated, fails for an adapter configured with the timeout 0: the request carries
  15000, not the configured 0.
\<close>

theorem fire_timeout_zero_counterexample:
  "createNetworkClient \<lparr> zaf = (), customObjectKey = ''users'', timeout = Some 0 \<rparr>
     (CustomObjectsProvider (\<lambda>r. Inr JNull)) =
   Inr \<lparr> nc_headers = [(''Content-Type'', ''application/json'')],
         nc_baseEndpoint = ''/api/v2/custom_objects/'',
         nc_customObjectKey = ''users'',
         nc_timeout = Some 0,
         nc_zaf = (\<lambda>r. Inr JNull) \<rparr>
   \<and> req_timeout
        (fire_request
           \<lparr> nc_headers = [(''Content-Type'', ''application/json'')],
             nc_baseEndpoint = ''/api/v2/custom_objects/'',
             nc_customObjectKey = ''users'',
             nc_timeout = Some 0,
             nc_zaf = (\<lambda>r. Inr JNull) \<rparr>
           \<lparr> data = JNull, endpoint = ''/records'', pathParams = None, params = None,
             method = GET \<rparr>) = 15000
   \<and> req_timeout
        (fire_request
           \<lparr> nc_headers = [(''Content-Type'', ''application/json'')],
             nc_baseEndpoint = ''/api/v2/custom_objects/'',
             nc_customObjectKey = ''users'',
             nc_timeout = Some 0,
             nc_zaf = (\<lambda>r. Inr JNull) \<rparr>
           \<lparr> data = JNull, endpoint = ''/records'', pathParams = None, params = None,
             method = GET \<rparr>) \<noteq> 0"
  by (simp add: createNetworkClient_def useInternalZafClient_def CustomObjectsProvider_def
        fire_request_def Let_def)

text \<open>
  C7, amended. Every call of \<open>fire\<close> on an adapter hands the transport exactly one
  request. It carries the header \<open>Content-Type: application/json\<close> and the secure flag;
  its timeout is the adapter's configured timeout when one is supplied and is not 0, and
  15000 ms otherwise; its body is the JSON text of the data field unless the data is
  \<open>null\<close>, in which case the body is left out.
\<close>

theorem fire_request_contract:
  assumes "createNetworkClient opts env = Inr client"
  shows "trace (snd (fire client payload w)) =
           trace w @ [ZafRequestEvent (fire_request client payload)]
         \<and> req_headers (fire_request client payload) = [(''Content-Type'', ''application/json'')]
         \<and> req_secure (fire_request client payload)
         \<and> req_timeout (fire_request client payload) =
             (case timeout opts of None \<Rightarrow> 15000 | Some t \<Rightarrow> if t = 0 then 15000 else t)
         \<and> req_data (fire_request client payload) =
             (if data payload = JNull then None else JSON_stringify (data payload))"
proof -
  note c = createNetworkClient_Inr [OF assms]
  have "req_timeout (fire_request client payload) =
          (case timeout opts of None \<Rightarrow> 15000 | Some t \<Rightarrow> if t = 0 then 15000 else t)"
    by (cases "timeout opts") (simp_all add: c fire_request_def Let_def)
  moreover have "req_headers (fire_request client payload) =
                   [(''Content-Type'', ''application/json'')]"
    by (simp add: c fire_request_def Let_def)
  moreover have "req_secure (fire_request client payload)"
    by (simp add: fire_request_def Let_def)
  moreover have "req_data (fire_request client payload) =
                   (if data payload = JNull then None else JSON_stringify (data payload))"
    by (simp add: fire_request_def Let_def)
  ultimately show ?thesis
    by (simp add: fire_trace)
qed

theorem fire_request_contract_witness:
  "\<exists>client.
     createNetworkClient \<lparr> zaf = (), customObjectKey = ''users'', timeout = Some 2000 \<rparr>
       (CustomObjectsProvider (\<lambda>r. Inr JNull)) = Inr client
     \<and> req_timeout
          (fire_request client
             \<lparr> data = JObj [], endpoint = ''/records'', pathParams = None, params = None,
               method = POST \<rparr>) = 2000
     \<and> req_data
          (fire_request client
             \<lparr> data = JObj [], endpoint = ''/records'', pathParams = None, params = None,
               method = POST \<rparr>) = Some ''{}''
     \<and> req_secure
          (fire_request client
             \<lparr> data = JObj [], endpoint = ''/records'', pathParams = None, params = None,
               method = POST \<rparr>)"
proof -
  obtain client where c:
    "createNetworkClient \<lparr> zaf = (), customObjectKey = ''users'', timeout = Some 2000 \<rparr>
       (CustomObjectsProvider (\<lambda>r. Inr JNull)) = Inr client"
    by (simp add: createNetworkClient_def useInternalZafClient_def CustomObjectsProvider_def)
  from fire_request_contract [OF c,
         of "\<lparr> data = JObj [], endpoint = ''/records'', pathParams = None, params = None,
               method = POST \<rparr>"]
  have "req_timeout
          (fire_request client
             \<lparr> data = JObj [], endpoint = ''/records'', pathParams = None, params = None,
               method = POST \<rparr>) = 2000
     \<and> req_data
          (fire_request client
             \<lparr> data = JObj [], endpoint = ''/records'', pathParams = None, params = None,
               method = POST \<rparr>) = Some ''{}''
     \<and> req_secure
          (fire_request client
             \<lparr> data = JObj [], endpoint = ''/records'', pathParams = None, params = None,
               method = POST \<rparr>)"
    by simp
  with c show ?thesis by blast
qed

text \<open>
  C10. The client \<open>createNetworkClient\<close> returns does not depend on the \<open>zaf\<close> field
  of its options, whatever the type of the value put there. The handle \<open>fire\<close> calls is
  the one of the provider's context, and the result of \<open>fire\<close> is what that handle
  answers to the request built from the payload. So the Delete hook, which puts the whole
  context object into the options, gets the very client it would get by passing the
  handle, as the other hooks do.
\<close>

theorem options_zaf_never_read:
  "createNetworkClient \<lparr> zaf = z1, customObjectKey = k, timeout = t \<rparr> env =
     createNetworkClient \<lparr> zaf = z2, customObjectKey = k, timeout = t \<rparr> env
   \<and> (createNetworkClient \<lparr> zaf = z1, customObjectKey = k, timeout = t \<rparr> (Some ctx) = Inr client
      \<longrightarrow> nc_zaf client = ctx_zaf ctx
          \<and> fire client payload w =
              (case ctx_zaf ctx (fire_request client payload) of
                 Inr response \<Rightarrow> Inr response
               | Inl e \<Rightarrow> Inl (normalizeError e),
               w \<lparr> trace := trace w @ [ZafRequestEvent (fire_request client payload)] \<rparr>)
          \<and> fire_request client payload =
              fire_request
                \<lparr> nc_headers = [(''Content-Type'', ''application/json'')],
                  nc_baseEndpoint = ''/api/v2/custom_objects/'',
                  nc_customObjectKey = k, nc_timeout = t, nc_zaf = ctx_zaf ctx \<rparr> payload)
   \<and> (useDeleteCustomObjects key postActionFn onSuccessFn (Some ctx) = Inr h
      \<longrightarrow> createNetworkClient
            \<lparr> zaf = ctx_zaf ctx, customObjectKey = ToString key, timeout = None \<rparr> (Some ctx) =
          Inr (mh_client h)
          \<and> useUpdateCustomObjects key postActionFn onSuccessFn (Some ctx) = Inr h)"
proof (intro conjI impI)
  show "createNetworkClient \<lparr> zaf = z1, customObjectKey = k, timeout = t \<rparr> env =
          createNetworkClient \<lparr> zaf = z2, customObjectKey = k, timeout = t \<rparr> env"
    by (cases env) (simp_all add: createNetworkClient_def useInternalZafClient_def)
next
  assume c: "createNetworkClient \<lparr> zaf = z1, customObjectKey = k, timeout = t \<rparr> (Some ctx) =
               Inr client"
  then have client: "client = \<lparr> nc_headers = [(''Content-Type'', ''application/json'')],
                  nc_baseEndpoint = ''/api/v2/custom_objects/'',
                  nc_customObjectKey = k, nc_timeout = t, nc_zaf = ctx_zaf ctx \<rparr>"
    by (auto simp: createNetworkClient_def useInternalZafClient_def)
  then show z: "nc_zaf client = ctx_zaf ctx"
    by simp
  show "fire client payload w =
          (case ctx_zaf ctx (fire_request client payload) of
             Inr response \<Rightarrow> Inr response
           | Inl e \<Rightarrow> Inl (normalizeError e),
           w \<lparr> trace := trace w @ [ZafRequestEvent (fire_request client payload)] \<rparr>)"
    by (cases "ctx_zaf ctx (fire_request client payload)") (simp_all add: fire_def Let_def z)
  from client show "fire_request client payload =
          fire_request
            \<lparr> nc_headers = [(''Content-Type'', ''application/json'')],
              nc_baseEndpoint = ''/api/v2/custom_objects/'',
              nc_customObjectKey = k, nc_timeout = t, nc_zaf = ctx_zaf ctx \<rparr> payload"
    by simp
next
  assume d: "useDeleteCustomObjects key postActionFn onSuccessFn (Some ctx) = Inr h"
  then show "createNetworkClient
               \<lparr> zaf = ctx_zaf ctx, customObjectKey = ToString key, timeout = None \<rparr> (Some ctx) =
             Inr (mh_client h)"
    by (auto simp: useDeleteCustomObjects_def createNetworkClient_def useInternalZafClient_def
          split: if_splits)
  from d show "useUpdateCustomObjects key postActionFn onSuccessFn (Some ctx) = Inr h"
    by (auto simp: useDeleteCustomObjects_def useUpdateCustomObjects_def createNetworkClient_def
          useInternalZafClient_def split: if_splits)
qed

theorem options_zaf_never_read_witness:
  "createNetworkClient
     \<lparr> zaf = \<lparr> ctx_zaf = (\<lambda>r. Inr JNull) \<rparr>, customObjectKey = ''users'', timeout = None \<rparr>
     (Some \<lparr> ctx_zaf = (\<lambda>r. Inr JNull) \<rparr>) =
   createNetworkClient
     \<lparr> zaf = (\<lambda>r. Inl (JStr ''another handle'')) :: ZafClient, customObjectKey = ''users'',
       timeout = None \<rparr>
     (Some \<lparr> ctx_zaf = (\<lambda>r. Inr JNull) \<rparr>)"
  by (rule options_zaf_never_read
    [of "\<lparr> ctx_zaf = (\<lambda>r. Inr JNull) \<rparr>" "''users''" None "Some \<lparr> ctx_zaf = (\<lambda>r. Inr JNull) \<rparr>"
        "(\<lambda>r. Inl (JStr ''another handle'')) :: ZafClient", THEN conjunct1])

section \<open>Properties of the mutation hooks' success handlers\<close>











lemma useUpdateCustomObjects_Inr:
  assumes "useUpdateCustomObjects key postActionFn onSuccessFn env = Inr h"
  shows "mh_customObjectKey h = ToString key \<and> mh_onSuccessFn h = onSuccessFn
         \<and> mh_postActionFn h = postActionFn"
  using assms
  by (cases env)
     (auto simp: useUpdateCustomObjects_def createNetworkClient_def useInternalZafClient_def
        split: if_splits)


lemma update_mutationFn_Inr:
  assumes "update_mutationFn h input recordId w = (Inr result, w1)"
  shows "result = JObj [(''id'', recordId)]
         \<and> cache w1 = cache w
         \<and> (\<exists>req. trace w1 = trace w @ [ZafRequestEvent req] \<and> req_type req = PUT)"
proof -
  let ?payload =
    "\<lparr> data = JObj [(''custom_object_record'',
                      JObj (if truthy (name input)
                            then [(''custom_object_fields'', custom_object_fields input)]
                                 @ [(''name'', name input)]
                            else [(''custom_object_fields'', custom_object_fields input)]))],
       endpoint = ''/records/{id}'',
       pathParams = Some [(''id'', recordId)], params = None, method = PUT \<rparr>"
  from assms have valid: "truthy recordId \<and> typeof recordId = ''string''"
    by (auto simp: update_mutationFn_def Let_def split: if_splits)
  obtain r w' where f: "fire (mh_client h) ?payload w = (r, w')"
    by (cases "fire (mh_client h) ?payload w")
  with assms valid have "result = JObj [(''id'', recordId)] \<and> w1 = w'"
    by (cases r) (auto simp: update_mutationFn_def Let_def)
  moreover from f have "trace w' = trace w @ [ZafRequestEvent (fire_request (mh_client h) ?payload)]"
    using fire_trace [of "mh_client h" ?payload w] by simp
  moreover from f have "cache w' = cache w"
    using fire_cache [of "mh_client h" ?payload w] by simp
  moreover have "req_type (fire_request (mh_client h) ?payload) = PUT"
    by (simp add: fire_request_def Let_def)
  ultimately show ?thesis by blast
qed




text \<open>
  C9. An Update execution is successful when its mutation function resolves: the record
  identifier is a non-empty string and the transport answered the PUT request. Then
  \<open>execute\<close> resolves with the identifier, and after the request the hook does, in this
  order and nothing else: call the success callback with the identifier if one was given,
  then call the post-success callback if one was given. No invalidation takes place: the
  world after the execution is the world after the request with those calls added to its
  trace, and the cache is the one before the execution.
\<close>

theorem update_success_sequence:
  assumes "useUpdateCustomObjects key postActionFn onSuccessFn env = Inr h"
    and "update_mutationFn h input recordId w = (Inr result, w1)"
  shows "update_execute h input recordId w =
           (Inr (JObj [(''id'', recordId)]),
            w1 \<lparr> trace := trace w1
                   @ (case onSuccessFn of None \<Rightarrow> [] | Some f \<Rightarrow> [Invoke f [recordId]])
                   @ (case postActionFn of None \<Rightarrow> [] | Some g \<Rightarrow> [Invoke g []]) \<rparr>)
         \<and> (\<exists>req. req_type req = PUT
                \<and> trace (snd (update_execute h input recordId w)) =
                    trace w @ [ZafRequestEvent req]
                    @ (case onSuccessFn of None \<Rightarrow> [] | Some f \<Rightarrow> [Invoke f [recordId]])
                    @ (case postActionFn of None \<Rightarrow> [] | Some g \<Rightarrow> [Invoke g []]))
         \<and> cache (snd (update_execute h input recordId w)) = cache w"
proof -
  note hook = useUpdateCustomObjects_Inr [OF assms(1)]
  from update_mutationFn_Inr [OF assms(2)] obtain req where
    result: "result = JObj [(''id'', recordId)]" and
    c1: "cache w1 = cache w" and
    t1: "trace w1 = trace w @ [ZafRequestEvent req]" and
    m: "req_type req = PUT"
    by blast
  have exec: "update_execute h input recordId w =
                (Inr (JObj [(''id'', recordId)]),
                 w1 \<lparr> trace := trace w1
                        @ (case onSuccessFn of None \<Rightarrow> [] | Some f \<Rightarrow> [Invoke f [recordId]])
                        @ (case postActionFn of None \<Rightarrow> [] | Some g \<Rightarrow> [Invoke g []]) \<rparr>)"
    using assms(2) hook result
    by (cases onSuccessFn; cases postActionFn)
       (simp_all add: update_execute_def update_onSuccess_def invoke_def)
  have "trace (snd (update_execute h input recordId w)) =
          trace w @ [ZafRequestEvent req]
          @ (case onSuccessFn of None \<Rightarrow> [] | Some f \<Rightarrow> [Invoke f [recordId]])
          @ (case postActionFn of None \<Rightarrow> [] | Some g \<Rightarrow> [Invoke g []])"
    by (simp add: exec t1)
  moreover have "cache (snd (update_execute h input recordId w)) = cache w"
    by (simp add: exec c1)
  ultimately show ?thesis
    using exec m by blast
qed

theorem update_success_sequence_witness:
  "\<exists>h. useUpdateCustomObjects (JStr ''users'') (Some (Callback ''after'')) (Some (Callback ''done''))
          (CustomObjectsProvider (\<lambda>r. Inr JNull)) = Inr h
      \<and> (\<exists>req.
            trace (snd (update_execute h
                     \<lparr> name = JUndefined, custom_object_fields = JObj [(''gender'', JStr ''M'')] \<rparr>
                     (JStr ''42'')
                     \<lparr> trace = [],
                       cache = [([''query-custom-objects-users'', ''users''],
                                 \<lparr> entry_data = JArr [], isInvalidated = False \<rparr>)],
       library = \<lparr> fetches = (\<lambda>opts entry. True), retries = (\<lambda>opts. 3) \<rparr> \<rparr>)) =
              [ZafRequestEvent req, Invoke (Callback ''done'') [JStr ''42''],
               Invoke (Callback ''after'') []])
      \<and> cache (snd (update_execute h
                     \<lparr> name = JUndefined, custom_object_fields = JObj [(''gender'', JStr ''M'')] \<rparr>
                     (JStr ''42'')
                     \<lparr> trace = [],
                       cache = [([''query-custom-objects-users'', ''users''],
                                 \<lparr> entry_data = JArr [], isInvalidated = False \<rparr>)],
       library = \<lparr> fetches = (\<lambda>opts entry. True), retries = (\<lambda>opts. 3) \<rparr> \<rparr>)) =
          [([''query-custom-objects-users'', ''users''],
            \<lparr> entry_data = JArr [], isInvalidated = False \<rparr>)]"
proof -
  let ?env = "CustomObjectsProvider (\<lambda>r. Inr JNull)"
  let ?w = "\<lparr> trace = [],
              cache = [([''query-custom-objects-users'', ''users''],
                        \<lparr> entry_data = JArr [], isInvalidated = False \<rparr>)],
       library = \<lparr> fetches = (\<lambda>opts entry. True), retries = (\<lambda>opts. 3) \<rparr> \<rparr>"
  let ?input = "\<lparr> name = JUndefined, custom_object_fields = JObj [(''gender'', JStr ''M'')] \<rparr>"
  obtain h where h: "useUpdateCustomObjects (JStr ''users'') (Some (Callback ''after''))
                       (Some (Callback ''done'')) ?env = Inr h"
    by (simp add: useUpdateCustomObjects_def useInternalZafClient_def createNetworkClient_def
          CustomObjectsProvider_def)
  then have client: "nc_zaf (mh_client h) = (\<lambda>r. Inr JNull)"
    by (auto simp: useUpdateCustomObjects_def useInternalZafClient_def createNetworkClient_def
          CustomObjectsProvider_def)
  obtain result w1 where m: "update_mutationFn h ?input (JStr ''42'') ?w = (Inr result, w1)"
    by (simp add: update_mutationFn_def fire_def Let_def client)
  note S = update_success_sequence [OF h m]
  from S [THEN conjunct2, THEN conjunct1] obtain req where
    "trace (snd (update_execute h ?input (JStr ''42'') ?w)) =
       trace ?w @ [ZafRequestEvent req]
       @ (case Some (Callback ''done'') of None \<Rightarrow> [] | Some f \<Rightarrow> [Invoke f [JStr ''42'']])
       @ (case Some (Callback ''after'') of None \<Rightarrow> [] | Some g \<Rightarrow> [Invoke g []])"
    by (elim exE conjE)
  then have t: "trace (snd (update_execute h ?input (JStr ''42'') ?w)) =
                  [ZafRequestEvent req, Invoke (Callback ''done'') [JStr ''42''],
                   Invoke (Callback ''after'') []]"
    by simp
  from S [THEN conjunct2, THEN conjunct2]
  have c: "cache (snd (update_execute h ?input (JStr ''42'') ?w)) =
             [([''query-custom-objects-users'', ''users''],
               \<lparr> entry_data = JArr [], isInvalidated = False \<rparr>)]"
    by simp
  from h t c show ?thesis by blast
qed

end
